theory Spec2Isabelle
  imports Main "HOL-Library.AList"
begin

section \<open>JavaScript values\<close>

text \<open>
  The module manager of \<^verbatim>\<open>lib/module_manager.js\<close> routes JSON-like messages between
  child processes and the synthetic \<^verbatim>\<open>core\<close> module. The values a message carries are
  modelled by \<open>jsval\<close>. Numbers are integers (message ids are produced by \<^verbatim>\<open>++\<close> on an
  integer counter); fractional numbers and \<^verbatim>\<open>NaN\<close> are outside the model. Objects are
  plain property lists. A dictionary object of the source (\<^verbatim>\<open>my.running_modules\<close>,
  \<^verbatim>\<open>my.shutdown_modules\<close>, \<^verbatim>\<open>procedures\<close>, \<^verbatim>\<open>rpc_calls\<close>) is a map or an association
  list over its own properties; a read \<^verbatim>\<open>dict[k]\<close> also finds the members every object
  inherits from \<^verbatim>\<open>Object.prototype\<close>, see \<open>property_of\<close> below.
\<close>

datatype jsval =
    JUndefined
  | JNull
  | JBool bool
  | JNum int
  | JStr string
  | JObj "(string \<times> jsval) list"

datatype js_exception = TypeError | SyntaxError | ReferenceError

text \<open>\<^verbatim>\<open>typeof v === 'string'\<close> and \<^verbatim>\<open>typeof v === 'number'\<close>.\<close>

fun is_string :: "jsval \<Rightarrow> bool" where
  "is_string (JStr s) = True"
| "is_string v = False"

fun is_number :: "jsval \<Rightarrow> bool" where
  "is_number (JNum n) = True"
| "is_number v = False"

text \<open>The truth value of a JavaScript value in a condition.\<close>

fun truthy :: "jsval \<Rightarrow> bool" where
  "truthy JUndefined = False"
| "truthy JNull = False"
| "truthy (JBool b) = b"
| "truthy (JNum n) = (n \<noteq> 0)"
| "truthy (JStr s) = (s \<noteq> [])"
| "truthy (JObj ps) = True"

text \<open>Decimal digits of a natural number, as \<^verbatim>\<open>String(n)\<close> prints them.\<close>

definition digit_char :: "nat \<Rightarrow> char" where
  "digit_char d = ''0123456789'' ! (d mod 10)"

function nat_digits :: "nat \<Rightarrow> string" where
  "nat_digits n = (if n < 10 then [digit_char n] else nat_digits (n div 10) @ [digit_char n])"
  by pat_completeness auto
termination
  by (relation "measure (\<lambda>n. n)") auto

declare nat_digits.simps [simp del]

text \<open>
  \<^verbatim>\<open>ToString\<close>: what string concatenation, \<^verbatim>\<open>RegExp.prototype.test\<close> and a computed
  property access \<^verbatim>\<open>obj[v]\<close> make of a value.
\<close>

fun to_string :: "jsval \<Rightarrow> string" where
  "to_string JUndefined = ''undefined''"
| "to_string JNull = ''null''"
| "to_string (JBool b) = (if b then ''true'' else ''false'')"
| "to_string (JNum n) = (if n < 0 then CHR ''-'' # nat_digits (nat (- n)) else nat_digits (nat n))"
| "to_string (JStr s) = s"
| "to_string (JObj ps) = ''[object Object]''"

text \<open>Property read \<^verbatim>\<open>v.k\<close> on a value that is neither \<^verbatim>\<open>null\<close> nor \<^verbatim>\<open>undefined\<close>.\<close>

fun get_prop :: "jsval \<Rightarrow> string \<Rightarrow> jsval" where
  "get_prop (JObj ps) k = (case map_of ps k of Some v \<Rightarrow> v | None \<Rightarrow> JUndefined)"
| "get_prop v k = JUndefined"

section \<open>Inherited properties and counters\<close>

text \<open>
  The dictionaries of the source are object literals \<^verbatim>\<open>{}\<close>, so \<^verbatim>\<open>dict[k]\<close> is the own
  property \<open>k\<close> if there is one, and otherwise the member of \<^verbatim>\<open>Object.prototype\<close> of that
  name: a function, or for \<^verbatim>\<open>__proto__\<close> the prototype object itself. All of them are
  truthy; none has a \<^verbatim>\<open>process\<close>, \<^verbatim>\<open>registrations\<close> or \<^verbatim>\<open>restart\<close> property. Writes
  (\<^verbatim>\<open>dict[k] = v\<close>, \<^verbatim>\<open>delete dict[k]\<close>) and \<^verbatim>\<open>hasOwnProperty\<close> concern own properties
  only. A write under the key \<^verbatim>\<open>__proto__\<close> would replace the prototype instead; the model
  has no such write in view: a module or an exposed procedure of that name, and
  \<^verbatim>\<open>run_module\<close> for a module whose name is an inherited member (the source would store
  the inherited member as the entry), are outside the model.
\<close>

datatype 'a property = Own 'a | Inherited | Missing

definition prototype_member :: "string \<Rightarrow> bool" where
  "prototype_member k =
     (k \<in> set [''constructor'', ''toString'', ''toLocaleString'', ''valueOf'', ''hasOwnProperty'',
                ''isPrototypeOf'', ''propertyIsEnumerable'', ''__defineGetter__'',
                ''__defineSetter__'', ''__lookupGetter__'', ''__lookupSetter__'', ''__proto__''])"

definition property_of :: "'a option \<Rightarrow> string \<Rightarrow> 'a property" where
  "property_of own k =
     (case own of
        Some v \<Rightarrow> Own v
      | None \<Rightarrow> if prototype_member k then Inherited else Missing)"

text \<open>The truth value of \<^verbatim>\<open>dict[k]\<close> in a condition.\<close>

fun has :: "'a property \<Rightarrow> bool" where
  "has (Own v) = True"
| "has Inherited = True"
| "has Missing = False"

text \<open>
  \<^verbatim>\<open>++my.core_module.message_id\<close>: the counter starts at 0 and is a double, so it counts up
  to \<open>2 ^ 53\<close> and stays there (\<open>2 ^ 53 + 1\<close> is not a double and rounds back).
\<close>

definition next_id :: "int \<Rightarrow> int" where
  "next_id n = (if n < 9007199254740992 then n + 1 else n)"

section \<open>Messages\<close>

text \<open>
  A message is \<^verbatim>\<open>{ hdr: { typ, src, mid }, ... }\<close> with the type-specific fields beside
  the header (\<open>hdr_typ\<close>, \<open>hdr_src\<close>, \<open>hdr_mid\<close>); an absent field reads \<^verbatim>\<open>undefined\<close>. The body fields \<^verbatim>\<open>msg.src\<close> and
  \<^verbatim>\<open>msg.typ\<close> are \<open>body_src\<close> and \<open>body_typ\<close>. A message whose \<^verbatim>\<open>hdr\<close> is missing (or
  falsy) has \<open>hdr = None\<close>; a missing message is \<open>None\<close>.
\<close>

record header =
  hdr_typ :: jsval
  hdr_src :: jsval
  hdr_mid :: jsval

record msg =
  hdr :: "header option"
  body_src :: jsval
  body_typ :: jsval
  rid :: jsval
  evt :: jsval
  dst :: jsval
  prc :: jsval
  arg :: jsval
  args :: jsval
  oid :: jsval
  err :: jsval
  res :: jsval

definition empty_msg :: msg where
  "empty_msg = \<lparr> hdr = None, body_src = JUndefined, body_typ = JUndefined, rid = JUndefined,
     evt = JUndefined, dst = JUndefined, prc = JUndefined, arg = JUndefined, args = JUndefined,
     oid = JUndefined, err = JUndefined, res = JUndefined \<rparr>"

section \<open>State of a module manager\<close>

text \<open>
  A registration holds the two compiled regular expressions, each modelled by the
  predicate its \<^verbatim>\<open>test\<close> method computes (a \<^verbatim>\<open>RegExp\<close> built without flags has no state).
\<close>

record registration =
  source :: "string \<Rightarrow> bool"
  type :: "string \<Rightarrow> bool"
  registration_id :: jsval

text \<open>
  An entry of \<^verbatim>\<open>my.running_modules\<close>. \<open>process\<close> is the child's handle (its pid), or
  \<open>None\<close> after the exit handler's \<^verbatim>\<open>delete my.running_modules[name].process\<close>.
\<close>

record running_module =
  process :: "nat option"
  name :: jsval
  path :: string
  restart :: nat
  registrations :: "registration list"

text \<open>
  A procedure exposed on behalf of the core module is host code \<^verbatim>\<open>fun(args, cb_)\<close>; it is
  modelled by what it does with its callback: call it once with \<^verbatim>\<open>(err, res)\<close>, or never.
\<close>

datatype completion = CallsBack jsval jsval | NoCallback

datatype log_entry = IGNORED "msg option" | ROUTED msg | REGISTER string jsval jsval

record core_module =
  procedures :: "string \<rightharpoonup> (jsval \<Rightarrow> completion)"
  message_id :: int
  rpc_calls :: "string \<rightharpoonup> nat"

text \<open>
  The errors \<^verbatim>\<open>common.err(msg, name)\<close> builds, by name (\<^verbatim>\<open>module_manager:invalid_path\<close>
  and so on), and the errors of the file system, the network and npm.
\<close>

datatype error =
    invalid_path
  | invalid_version
  | invalid_name
  | module_conflict
  | module_unknown
  | external string

text \<open>
  A completion callback \<^verbatim>\<open>cb_\<close>: a callback of the host (numbered), the per-item callback
  \<^verbatim>\<open>async.each\<close> hands to its iterator, or \<^verbatim>\<open>function() {}\<close>.
\<close>

datatype continuation = Host nat | Each nat | Ignore

record each_state =
  arr_length :: nat
  completed_count :: nat
  callback :: "nat option"

text \<open>
  The \<^verbatim>\<open>exit\<close> listeners the source installs on a child process: the one of
  \<^verbatim>\<open>run_module\<close> (closed over \<^verbatim>\<open>module.name\<close> and \<^verbatim>\<open>path\<close>) and the one of
  \<^verbatim>\<open>kill_module\<close> (closed over \<^verbatim>\<open>module.name\<close> and \<^verbatim>\<open>cb_\<close>).
\<close>

datatype exit_listener = Restart jsval string | Shutdown jsval continuation

record child =
  exit_listeners :: "exit_listener list"
  message_listener :: "jsval option"
  killed :: bool

text \<open>
  The dictionaries \<^verbatim>\<open>my.running_modules\<close> and \<^verbatim>\<open>my.shutdown_modules\<close> are association
  lists in insertion order, the order of \<^verbatim>\<open>for(var name in ...)\<close> over keys that are
  not array indices. \<open>db\<close> holds the
  documents of the session's \<^verbatim>\<open>nedb\<close> store (finds and updates of the store do not fail
  in the model). \<open>children\<close> are the child processes by pid (a pid that was never forked
  has no listeners), \<open>timers\<close> the armed 5 s
  timers of \<^verbatim>\<open>kill_module\<close>, \<open>eaches\<close> the running \<^verbatim>\<open>async.each\<close> calls. The
  effects are traces: \<open>sent\<close> lists every \<^verbatim>\<open>my.running_modules[k].process.send(msg)\<close>
  with the key \<open>k\<close> and the receiving process, \<open>next_tick\<close> the messages queued by \<^verbatim>\<open>process.nextTick\<close> for a later
  \<^verbatim>\<open>dispatch\<close>, \<open>console\<close> the lines logged, \<open>completed\<close> the host callbacks called
  with their \<^verbatim>\<open>err\<close>.
\<close>

record manager =
  running_modules :: "(string \<times> running_module) list"
  shutdown_modules :: "(string \<times> running_module) list"
  core :: core_module
  db :: "jsval list"
  children :: "nat \<Rightarrow> child"
  next_pid :: nat
  timers :: "jsval list"
  eaches :: "nat \<rightharpoonup> each_state"
  next_each :: nat
  sent :: "(string \<times> nat \<times> msg) list"
  next_tick :: "msg list"
  console :: "log_entry list"
  completed :: "(nat \<times> error option) list"

definition core_name :: string where
  "core_name = ''core''"

datatype outcome = Returned | Thrown js_exception

section \<open>Message dispatch\<close>

text \<open>The validation gate at the head of \<^verbatim>\<open>dispatch\<close>: \<open>None\<close> when the message is ignored.\<close>

definition accepted :: "manager \<Rightarrow> msg option \<Rightarrow> (msg \<times> header \<times> string) option" where
  "accepted s mo =
     (case mo of
        None \<Rightarrow> None
      | Some m \<Rightarrow>
          (case hdr m of
             None \<Rightarrow> None
           | Some h \<Rightarrow>
               (case hdr_src h of
                  JStr sender \<Rightarrow>
                    if is_string (hdr_typ h) \<and> is_number (hdr_mid h) \<and>
                       (has (property_of (map_of (running_modules s) sender) sender) \<or>
                        sender = core_name)
                    then Some (m, h, sender) else None
                | _ \<Rightarrow> None)))"

text \<open>
  The \<^verbatim>\<open>event\<close> case. The inner \<^verbatim>\<open>forEach\<close> over the registrations of module \<open>nm\<close>: a
  matching registration sends the message to the module's process; \<^verbatim>\<open>.send\<close> on a deleted
  process handle is a \<^verbatim>\<open>TypeError\<close> that ends the whole dispatch.
\<close>

fun deliver :: "string \<Rightarrow> msg \<Rightarrow> string \<Rightarrow> nat option \<Rightarrow> registration list \<Rightarrow>
    (string \<times> nat \<times> msg) list \<Rightarrow> outcome \<times> (string \<times> nat \<times> msg) list" where
  "deliver sender m nm p [] out = (Returned, out)"
| "deliver sender m nm p (r # rs) out =
     (if source r sender \<and> type r (to_string (body_typ m)) \<and> sender \<noteq> nm
      then (case p of
              None \<Rightarrow> (Thrown TypeError, out)
            | Some pid \<Rightarrow> deliver sender m nm p rs (out @ [(nm, pid, m)]))
      else deliver sender m nm p rs out)"

fun deliver_all :: "string \<Rightarrow> msg \<Rightarrow> (string \<times> running_module) list \<Rightarrow>
    (string \<times> nat \<times> msg) list \<Rightarrow> outcome \<times> (string \<times> nat \<times> msg) list" where
  "deliver_all sender m [] out = (Returned, out)"
| "deliver_all sender m ((nm, rm) # mods) out =
     (case deliver sender m nm (process rm) (registrations rm) out of
        (Thrown e, out') \<Rightarrow> (Thrown e, out')
      | (Returned, out') \<Rightarrow> deliver_all sender m mods out')"

text \<open>
  \<open>RegExp\<close> is the constructor \<^verbatim>\<open>new RegExp(s)\<close> of the JavaScript engine: the predicate
  of the compiled expression, or \<open>None\<close> where the engine throws a \<^verbatim>\<open>SyntaxError\<close>.

  A read of \<^verbatim>\<open>my.running_modules[k]\<close> that finds an inherited member goes on to read
  \<^verbatim>\<open>.registrations\<close> or \<^verbatim>\<open>.process\<close> of it, which is \<^verbatim>\<open>undefined\<close>: the \<^verbatim>\<open>push\<close>,
  the \<^verbatim>\<open>length\<close> or the \<^verbatim>\<open>send\<close> on it is a \<^verbatim>\<open>TypeError\<close>. An inherited member found
  under \<^verbatim>\<open>procedures[msg.prc]\<close> is called like a procedure: the functions of
  \<^verbatim>\<open>Object.prototype\<close> return without calling the callback, so no reply follows, and
  \<^verbatim>\<open>__proto__\<close> is no function, a \<^verbatim>\<open>TypeError\<close>.

  In the \<^verbatim>\<open>rpc_reply\<close> case the source calls \<^verbatim>\<open>my.core_moodule.rpc_calls[msg.oid](err,
  msg.res)\<close>; \<^verbatim>\<open>my.core_moodule\<close> is undefined, so the read of \<^verbatim>\<open>.rpc_calls\<close> throws a
  \<^verbatim>\<open>TypeError\<close> before the continuation is called and before the \<^verbatim>\<open>delete\<close>.
\<close>

definition dispatch :: "(string \<Rightarrow> (string \<Rightarrow> bool) option) \<Rightarrow> msg option \<Rightarrow> manager \<Rightarrow>
    outcome \<times> manager" where
  "dispatch RegExp mo s =
     (case accepted s mo of
        None \<Rightarrow> (Returned, s\<lparr>console := console s @ [IGNORED mo]\<rparr>)
      | Some (m, h, sender) \<Rightarrow>
          let s0 = s\<lparr>console := console s @ [ROUTED m]\<rparr> in
          if hdr_typ h = JStr ''register'' then
            (if is_string (body_src m) \<and> is_string (body_typ m) then
               (case property_of (map_of (running_modules s0) sender) sender of
                  Missing \<Rightarrow> (Thrown TypeError, s0)
                | Inherited \<Rightarrow> (Thrown TypeError, s0)
                | Own rm \<Rightarrow>
                    (case RegExp (to_string (body_src m)) of
                       None \<Rightarrow> (Thrown SyntaxError, s0)
                     | Some source_rx \<Rightarrow>
                         (case RegExp (to_string (body_typ m)) of
                            None \<Rightarrow> (Thrown SyntaxError, s0)
                          | Some type_rx \<Rightarrow>
                              (Returned,
                               s0\<lparr>running_modules :=
                                     AList.update sender
                                       (rm\<lparr>registrations := registrations rm @
                                           [\<lparr>source = source_rx, type = type_rx,
                                             registration_id = hdr_mid h\<rparr>]\<rparr>)
                                       (running_modules s0),
                                   console := console s0 @
                                     [REGISTER sender (body_src m) (body_typ m)]\<rparr>))))
             else (Returned, s0))
          else if hdr_typ h = JStr ''unregister'' then
            (if is_number (rid m) then
               (case property_of (map_of (running_modules s0) sender) sender of
                  Missing \<Rightarrow> (Thrown TypeError, s0)
                | Inherited \<Rightarrow> (Thrown TypeError, s0)
                | Own rm \<Rightarrow>
                    (Returned,
                     s0\<lparr>running_modules :=
                           AList.update sender
                             (rm\<lparr>registrations :=
                                   filter (\<lambda>r. registration_id r \<noteq> rid m) (registrations rm)\<rparr>)
                             (running_modules s0)\<rparr>))
             else (Returned, s0))
          else if hdr_typ h = JStr ''event'' then
            (case deliver_all sender m (running_modules s0) (sent s0) of
               (out, sent') \<Rightarrow> (out, s0\<lparr>sent := sent'\<rparr>))
          else if hdr_typ h = JStr ''rpc_call'' then
            (case property_of (map_of (running_modules s0) (to_string (dst m)))
                    (to_string (dst m)) of
               Own rm \<Rightarrow>
                 (case process rm of
                    None \<Rightarrow> (Thrown TypeError, s0)
                  | Some pid \<Rightarrow> (Returned, s0\<lparr>sent := sent s0 @ [(to_string (dst m), pid, m)]\<rparr>))
             | Inherited \<Rightarrow> (Thrown TypeError, s0)
             | Missing \<Rightarrow>
                 if dst m = JStr core_name then
                   let fresh = next_id (message_id (core s0));
                       s1 = s0\<lparr>core := (core s0)\<lparr>message_id := fresh\<rparr>\<rparr>;
                       reply = m\<lparr>oid := hdr_mid h,
                                 hdr := Some \<lparr>hdr_typ = JStr ''rpc_reply'', hdr_src = JStr core_name,
                                             hdr_mid = JNum fresh\<rparr>,
                                 dst := JStr sender\<rparr>
                   in (case property_of (procedures (core s1) (to_string (prc m)))
                              (to_string (prc m)) of
                         Own handler \<Rightarrow>
                           (case handler (arg m) of
                              CallsBack e r \<Rightarrow>
                                (Returned,
                                 s1\<lparr>next_tick := next_tick s1 @
                                     [if truthy e
                                      then reply\<lparr>err := JObj [(''msg'', get_prop e ''message''),
                                                              (''nme'', get_prop e ''name'')]\<rparr>
                                      else reply\<lparr>res := r\<rparr>]\<rparr>)
                            | NoCallback \<Rightarrow> (Returned, s1))
                       | Inherited \<Rightarrow>
                           if to_string (prc m) = ''__proto__'' then (Thrown TypeError, s1)
                           else (Returned, s1)
                       | Missing \<Rightarrow>
                           (Returned,
                            s1\<lparr>next_tick := next_tick s1 @
                                [reply\<lparr>err := JObj
                                   [(''msg'', JStr (''Procedure not found: `'' @ to_string (prc m) @ ''`'')),
                                    (''nme'', JStr ''procedure_not_found'')]\<rparr>]\<rparr>))
                 else (Returned, s0))
          else if hdr_typ h = JStr ''rpc_reply'' then
            (case (case map_of (running_modules s0) (to_string (dst m)) of
                     None \<Rightarrow> None | Some rm \<Rightarrow> process rm) of
               Some pid \<Rightarrow> (Returned, s0\<lparr>sent := sent s0 @ [(to_string (dst m), pid, m)]\<rparr>)
             | None \<Rightarrow>
                 if dst m = JStr core_name then
                   (if has (property_of (rpc_calls (core s0) (to_string (oid m)))
                              (to_string (oid m)))
                    then (Thrown TypeError, s0) else (Returned, s0))
                 else (Returned, s0))
          else (Returned, s0))"

section \<open>The core module's endpoint\<close>


text \<open>
  \<^verbatim>\<open>core_call\<close> builds the envelope (its argument under the key \<^verbatim>\<open>args\<close>), dispatches it,
  and only then stores the continuation, under the value \<^verbatim>\<open>message_id\<close> has after the
  dispatch.
\<close>

definition core_call_msg :: "jsval \<Rightarrow> jsval \<Rightarrow> jsval \<Rightarrow> int \<Rightarrow> msg" where
  "core_call_msg nm proc a fresh =
     empty_msg\<lparr>hdr := Some \<lparr>hdr_typ = JStr ''rpc_call'', hdr_src = JStr core_name, hdr_mid = JNum fresh\<rparr>,
               dst := nm, prc := proc, args := a\<rparr>"

definition core_call :: "(string \<Rightarrow> (string \<Rightarrow> bool) option) \<Rightarrow> jsval \<Rightarrow> jsval \<Rightarrow> jsval \<Rightarrow>
    nat \<Rightarrow> manager \<Rightarrow> outcome \<times> manager" where
  "core_call RegExp nm proc a cb s =
     (let fresh = next_id (message_id (core s));
          s1 = s\<lparr>core := (core s)\<lparr>message_id := fresh\<rparr>\<rparr>
      in case dispatch RegExp (Some (core_call_msg nm proc a fresh)) s1 of
           (Thrown e, s2) \<Rightarrow> (Thrown e, s2)
         | (Returned, s2) \<Rightarrow>
             (Returned,
              s2\<lparr>core := (core s2)\<lparr>rpc_calls :=
                 (rpc_calls (core s2))(to_string (JNum (message_id (core s2))) \<mapsto> cb)\<rparr>\<rparr>))"

definition core_emit :: "(string \<Rightarrow> (string \<Rightarrow> bool) option) \<Rightarrow> jsval \<Rightarrow> jsval \<Rightarrow> manager \<Rightarrow>
    outcome \<times> manager" where
  "core_emit RegExp ty event s =
     (let fresh = next_id (message_id (core s));
          s1 = s\<lparr>core := (core s)\<lparr>message_id := fresh\<rparr>\<rparr>
      in dispatch RegExp
           (Some (empty_msg\<lparr>hdr := Some \<lparr>hdr_typ = JStr ''event'', hdr_src = JStr core_name,
                                         hdr_mid = JNum fresh\<rparr>,
                            body_typ := ty, evt := event\<rparr>)) s1)"

section \<open>Completion callbacks\<close>

text \<open>
  Calling a completion callback with \<^verbatim>\<open>err\<close>. The item callback of \<^verbatim>\<open>async.each\<close> calls
  the final callback with the first error and then disarms it, or counts the item and
  calls the final callback once every item is counted. The final callback of \<^verbatim>\<open>kill\<close>
  passes its error, or nothing, to the host's \<^verbatim>\<open>cb_\<close>.
\<close>

definition invoke :: "continuation \<Rightarrow> error option \<Rightarrow> manager \<Rightarrow> manager" where
  "invoke k e s =
     (case k of
        Ignore \<Rightarrow> s
      | Host c \<Rightarrow> s\<lparr>completed := completed s @ [(c, e)]\<rparr>
      | Each i \<Rightarrow>
          (case eaches s i of
             None \<Rightarrow> s
           | Some st \<Rightarrow>
               (case e of
                  Some failure \<Rightarrow>
                    (case callback st of
                       None \<Rightarrow> s
                     | Some c \<Rightarrow>
                         s\<lparr>completed := completed s @ [(c, Some failure)],
                           eaches := (eaches s)(i \<mapsto> st\<lparr>callback := None\<rparr>)\<rparr>)
                | None \<Rightarrow>
                    let st' = st\<lparr>completed_count := completed_count st + 1\<rparr>;
                        s' = s\<lparr>eaches := (eaches s)(i \<mapsto> st')\<rparr>
                    in if completed_count st' \<ge> arr_length st'
                       then (case callback st' of
                               None \<Rightarrow> s'
                             | Some c \<Rightarrow> s'\<lparr>completed := completed s' @ [(c, None)]\<rparr>)
                       else s')))"

section \<open>Running and killing modules\<close>

text \<open>\<^verbatim>\<open>my.db.find({ path: path }, ...)\<close>: the documents whose \<^verbatim>\<open>path\<close> is the value given.\<close>

definition find_path :: "jsval \<Rightarrow> manager \<Rightarrow> jsval list" where
  "find_path p s = filter (\<lambda>d. get_prop d ''path'' = p) (db s)"

text \<open>
  \<^verbatim>\<open>run_module(path, cb_)\<close>. \<open>installs\<close> is the outcome of \<^verbatim>\<open>install(path)\<close> for a module
  of the registry: the file system, the download and npm are not part of the model. The
  three steps of the \<^verbatim>\<open>async.series\<close> run as one, so the time between the call and
  the fork, in which the source waits for the store and for \<^verbatim>\<open>install\<close>, has no state
  of its own here.
\<close>

definition run_module :: "(string \<Rightarrow> error option) \<Rightarrow> string \<Rightarrow> continuation \<Rightarrow> manager \<Rightarrow>
    manager" where
  "run_module installs p cb s =
     (case find_path (JStr p) s of
        [] \<Rightarrow> invoke cb (Some module_unknown) s
      | module # others \<Rightarrow>
          (case installs p of
             Some failure \<Rightarrow> invoke cb (Some failure) s
           | None \<Rightarrow>
               let nm = get_prop module ''name'';
                   entry = (case map_of (running_modules s) (to_string nm) of
                              Some rm \<Rightarrow> rm
                            | None \<Rightarrow> \<lparr>process = None, name = nm, path = p, restart = 0,
                                        registrations = []\<rparr>);
                   pid = next_pid s
               in invoke cb None
                    (s\<lparr>running_modules :=
                          AList.update (to_string nm) (entry\<lparr>process := Some pid\<rparr>)
                            (running_modules s),
                        next_pid := pid + 1,
                        children := (children s)(pid :=
                          \<lparr>exit_listeners = [Restart nm p], message_listener = Some nm,
                           killed = False\<rparr>)\<rparr>)))"

text \<open>\<^verbatim>\<open>p.removeAllListeners()\<close> and \<^verbatim>\<open>p.removeAllListeners('exit')\<close>.\<close>

definition removeAllListeners :: "nat \<Rightarrow> manager \<Rightarrow> manager" where
  "removeAllListeners pid s =
     s\<lparr>children := (children s)(pid :=
         (children s pid)\<lparr>exit_listeners := [], message_listener := None\<rparr>)\<rparr>"

definition removeExitListeners :: "nat \<Rightarrow> manager \<Rightarrow> manager" where
  "removeExitListeners pid s =
     s\<lparr>children := (children s)(pid := (children s pid)\<lparr>exit_listeners := []\<rparr>)\<rparr>"

definition add_exit_listener :: "nat \<Rightarrow> exit_listener \<Rightarrow> manager \<Rightarrow> manager" where
  "add_exit_listener pid l s =
     s\<lparr>children := (children s)(pid :=
         (children s pid)\<lparr>exit_listeners := exit_listeners (children s pid) @ [l]\<rparr>)\<rparr>"

text \<open>
  One \<^verbatim>\<open>exit\<close> listener, called for the exit of process \<open>pid\<close>. The listener of
  \<^verbatim>\<open>run_module\<close> restarts the module while \<^verbatim>\<open>restart < 3\<close> and deletes it otherwise; the
  listener of \<^verbatim>\<open>kill_module\<close> deletes the entry of \<^verbatim>\<open>my.shutdown_modules\<close> and completes.
  Where \<^verbatim>\<open>my.running_modules[module.name]\<close> is an inherited member, its \<^verbatim>\<open>restart\<close> is
  \<^verbatim>\<open>undefined\<close>, not below 3, and the \<^verbatim>\<open>delete\<close> finds no own property. The listener of
  \<^verbatim>\<open>kill_module\<close> reads \<^verbatim>\<open>.process\<close> of the entry and calls a method on it: a
  \<^verbatim>\<open>TypeError\<close> unless the entry is an own one with its handle.
\<close>

definition exit_handler :: "(string \<Rightarrow> error option) \<Rightarrow> nat \<Rightarrow> exit_listener \<Rightarrow> manager \<Rightarrow>
    outcome \<times> manager" where
  "exit_handler installs pid l s =
     (case l of
        Restart nm p \<Rightarrow>
          let s1 = removeAllListeners pid s in
          (case property_of (map_of (running_modules s1) (to_string nm)) (to_string nm) of
             Missing \<Rightarrow> (Thrown TypeError, s1)
           | Inherited \<Rightarrow> (Returned, s1)
           | Own rm \<Rightarrow>
               let rm1 = rm\<lparr>process := None\<rparr> in
               if restart rm1 < 3
               then (Returned,
                     run_module installs p Ignore
                       (s1\<lparr>running_modules :=
                             AList.update (to_string nm) (rm1\<lparr>restart := restart rm1 + 1\<rparr>)
                               (running_modules s1)\<rparr>))
               else (Returned,
                     s1\<lparr>running_modules := AList.delete (to_string nm) (running_modules s1)\<rparr>))
      | Shutdown nm cb \<Rightarrow>
          (case map_of (shutdown_modules s) (to_string nm) of
             None \<Rightarrow> (Thrown TypeError, s)
           | Some rm \<Rightarrow>
               (case process rm of
                  None \<Rightarrow> (Thrown TypeError, s)
                | Some q \<Rightarrow>
                    let s1 = removeAllListeners q s;
                        s2 = s1\<lparr>shutdown_modules :=
                                 AList.delete (to_string nm) (shutdown_modules s1)\<rparr>
                    in (Returned, invoke cb None s2))))"

text \<open>
  The exit of child \<open>pid\<close>: the listeners registered at that moment are called in turn; an
  exception in one ends the emit.
\<close>

fun emit_exit :: "(string \<Rightarrow> error option) \<Rightarrow> nat \<Rightarrow> exit_listener list \<Rightarrow> manager \<Rightarrow>
    outcome \<times> manager" where
  "emit_exit installs pid [] s = (Returned, s)"
| "emit_exit installs pid (l # ls) s =
     (case exit_handler installs pid l s of
        (Thrown e, s') \<Rightarrow> (Thrown e, s')
      | (Returned, s') \<Rightarrow> emit_exit installs pid ls s')"

definition child_exit :: "(string \<Rightarrow> error option) \<Rightarrow> nat \<Rightarrow> manager \<Rightarrow> outcome \<times> manager" where
  "child_exit installs pid s = emit_exit installs pid (exit_listeners (children s pid)) s"

text \<open>
  \<^verbatim>\<open>kill_module(path, cb_)\<close>. The registry is searched for a document whose \<^verbatim>\<open>path\<close> is
  the argument. For a running module the \<^verbatim>\<open>kill\<close> call is dispatched, the entry moves to
  \<^verbatim>\<open>my.shutdown_modules\<close>, the \<^verbatim>\<open>exit\<close> listener is replaced and the timer is armed; the
  callback waits for the exit. The test \<^verbatim>\<open>if(my.running_modules[module.name])\<close> also
  holds for an inherited member; the dispatch of the \<^verbatim>\<open>kill\<close> call then throws.
\<close>

definition kill_msg :: "jsval \<Rightarrow> int \<Rightarrow> msg" where
  "kill_msg nm fresh =
     empty_msg\<lparr>hdr := Some \<lparr>hdr_typ = JStr ''rpc_call'', hdr_src = JStr core_name,
                             hdr_mid = JNum fresh\<rparr>,
               dst := nm, prc := JStr ''kill''\<rparr>"

definition kill_module :: "(string \<Rightarrow> (string \<Rightarrow> bool) option) \<Rightarrow> jsval \<Rightarrow> continuation \<Rightarrow>
    manager \<Rightarrow> outcome \<times> manager" where
  "kill_module RegExp p cb s =
     (case find_path p s of
        [] \<Rightarrow> (Returned, invoke cb (Some module_unknown) s)
      | module # others \<Rightarrow>
          let nm = get_prop module ''name'' in
          if \<not> has (property_of (map_of (running_modules s) (to_string nm)) (to_string nm))
          then (Returned, invoke cb None s)
          else let fresh = next_id (message_id (core s));
                   s1 = s\<lparr>core := (core s)\<lparr>message_id := fresh\<rparr>\<rparr>
               in (case dispatch RegExp (Some (kill_msg nm fresh)) s1 of
                     (Thrown e, s2) \<Rightarrow> (Thrown e, s2)
                   | (Returned, s2) \<Rightarrow>
                       (case map_of (running_modules s2) (to_string nm) of
                          None \<Rightarrow> (Thrown TypeError, s2)
                        | Some rm \<Rightarrow>
                            let s3 = s2\<lparr>shutdown_modules :=
                                          AList.update (to_string nm) rm (shutdown_modules s2),
                                        running_modules :=
                                          AList.delete (to_string nm) (running_modules s2)\<rparr>
                            in (case process rm of
                                  None \<Rightarrow> (Thrown TypeError, s3)
                                | Some pid \<Rightarrow>
                                    (Returned,
                                     (add_exit_listener pid (Shutdown nm cb)
                                        (removeExitListeners pid s3))
                                     \<lparr>timers := timers s3 @ [nm]\<rparr>)))))"


text \<open>
  \<^verbatim>\<open>kill(cb_)\<close>: \<^verbatim>\<open>async.each\<close> over the entries of \<^verbatim>\<open>my.running_modules\<close>, calling
  \<^verbatim>\<open>kill_module(module.name, cb_)\<close> for each, that is with the module's name where
  \<^verbatim>\<open>kill_module\<close> expects a path.
\<close>

fun kill_each :: "(string \<Rightarrow> (string \<Rightarrow> bool) option) \<Rightarrow> nat \<Rightarrow> running_module list \<Rightarrow>
    manager \<Rightarrow> outcome \<times> manager" where
  "kill_each RegExp i [] s = (Returned, s)"
| "kill_each RegExp i (module # arr) s =
     (case kill_module RegExp (name module) (Each i) s of
        (Thrown e, s') \<Rightarrow> (Thrown e, s')
      | (Returned, s') \<Rightarrow> kill_each RegExp i arr s')"

definition kill :: "(string \<Rightarrow> (string \<Rightarrow> bool) option) \<Rightarrow> nat \<Rightarrow> manager \<Rightarrow> outcome \<times> manager" where
  "kill RegExp cb s =
     (let arr = map snd (running_modules s) in
      if arr = [] then (Returned, invoke (Host cb) None s)
      else
        let i = next_each s;
            s1 = s\<lparr>eaches := (eaches s)(i \<mapsto>
                      \<lparr>arr_length = length arr, completed_count = 0, callback = Some cb\<rparr>),
                   next_each := i + 1\<rparr>
        in kill_each RegExp i arr s1)"


section \<open>Module paths\<close>

text \<open>
  The world outside the module manager: the \<^verbatim>\<open>path\<close> library, the tag listing of a
  repository (\<^verbatim>\<open>repo.tags\<close>, by \<^verbatim>\<open>owner/name\<close>, giving the tags' names), \<^verbatim>\<open>fs.stat\<close>, the
  read and parse of the \<^verbatim>\<open>package.json\<close> in a directory, and the \<^verbatim>\<open>semver\<close> library:
  \<^verbatim>\<open>semver.clean(v, true)\<close> gives a version string or \<^verbatim>\<open>null\<close>, and \<^verbatim>\<open>semver.gt\<close> and
  \<^verbatim>\<open>semver.lt\<close> compare two versions by their precedence, a rank in a linear order.
\<close>

record 'k world =
  path_normalize :: "string \<Rightarrow> string"
  home_join :: "string \<Rightarrow> string"
  repo_tags :: "string \<Rightarrow> error + string list"
  fs_stat :: "string \<Rightarrow> error option"
  read_package :: "string \<Rightarrow> error + jsval"
  semver_clean :: "jsval \<Rightarrow> string option"
  semver_rank :: "string \<Rightarrow> 'k"

datatype expanded = github string string "string option" | local string

text \<open>The character class \<^verbatim>\<open>[a-zA-Z0-9\-_\.]\<close>.\<close>

definition id_char :: "char \<Rightarrow> bool" where
  "id_char c = (c \<in> set ''abcdefghijklmnopqrstuvwxyzABCDEFGHIJKLMNOPQRSTUVWXYZ0123456789-_.'')"

definition strip_prefix :: "string \<Rightarrow> string \<Rightarrow> string option" where
  "strip_prefix pre s = (if take (length pre) s = pre then Some (drop (length pre) s) else None)"

text \<open>
  The match of \<^verbatim>\<open>/^github\:([a-zA-Z0-9\-_\.]+)\/([a-zA-Z0-9\-_\.]+)(#[a-zA-Z0-9\-_\.]+){0,1}/\<close>:
  the expression is not anchored at its end, so text after the name or the tag is ignored.
\<close>

definition github_m :: "string \<Rightarrow> (string \<times> string \<times> string option) option" where
  "github_m p =
     (case strip_prefix ''github:'' p of
        None \<Rightarrow> None
      | Some rest \<Rightarrow>
          let owner = takeWhile id_char rest; rest1 = dropWhile id_char rest in
          if owner = [] then None
          else (case rest1 of
                  [] \<Rightarrow> None
                | c # rest2 \<Rightarrow>
                    if c \<noteq> CHR ''/'' then None
                    else
                      let nm = takeWhile id_char rest2; rest3 = dropWhile id_char rest2 in
                      if nm = [] then None
                      else (case rest3 of
                              [] \<Rightarrow> Some (owner, nm, None)
                            | d # rest4 \<Rightarrow>
                                if d = CHR ''#'' \<and> takeWhile id_char rest4 \<noteq> []
                                then Some (owner, nm, Some (takeWhile id_char rest4))
                                else Some (owner, nm, None))))"

text \<open>The match of \<^verbatim>\<open>/^local\:(.+)$/\<close>: a non-empty rest without a line break.\<close>

definition local_m :: "string \<Rightarrow> string option" where
  "local_m p =
     (case strip_prefix ''local:'' p of
        None \<Rightarrow> None
      | Some rest \<Rightarrow>
          if rest \<noteq> [] \<and> CHR 0x0A \<notin> set rest \<and> CHR 0x0D \<notin> set rest then Some rest else None)"

definition expand_path :: "'k world \<Rightarrow> string \<Rightarrow> expanded option" where
  "expand_path w p =
     (case github_m p of
        Some (owner, nm, tag) \<Rightarrow> Some (github owner nm tag)
      | None \<Rightarrow>
          (case local_m p of
             Some rest \<Rightarrow>
               if take 1 rest = ''~'' then Some (local (home_join w (drop 1 rest)))
               else Some (local (path_normalize w rest))
           | None \<Rightarrow> None))"

text \<open>
  \<^verbatim>\<open>Array.prototype.sort\<close> with a comparison function, as an insertion sort. Which of two
  elements the function holds equal comes first is up to the engine.
\<close>

fun insert_by :: "('a \<Rightarrow> 'a \<Rightarrow> int) \<Rightarrow> 'a \<Rightarrow> 'a list \<Rightarrow> 'a list" where
  "insert_by cmp x [] = [x]"
| "insert_by cmp x (y # ys) = (if cmp x y \<le> 0 then x # y # ys else y # insert_by cmp x ys)"

definition js_sort :: "('a \<Rightarrow> 'a \<Rightarrow> int) \<Rightarrow> 'a list \<Rightarrow> 'a list" where
  "js_sort cmp xs = foldr (insert_by cmp) xs []"

text \<open>The comparison function of \<^verbatim>\<open>augment_path\<close>, on pairs \<^verbatim>\<open>{ version, tag }\<close>.\<close>

definition newest_first :: "('k::linorder) world \<Rightarrow> string \<times> string \<Rightarrow> string \<times> string \<Rightarrow> int" where
  "newest_first w a b =
     (if semver_rank w (fst b) > semver_rank w (fst a) then 1
      else if semver_rank w (fst b) < semver_rank w (fst a) then - 1 else 0)"

definition versions :: "'k world \<Rightarrow> string list \<Rightarrow> (string \<times> string) list" where
  "versions w data =
     List.map_filter
       (\<lambda>t. case semver_clean w (JStr t) of
              None \<Rightarrow> None
            | Some v \<Rightarrow> if v \<noteq> [] then Some (v, t) else None)
       data"

definition augment_path :: "('k::linorder) world \<Rightarrow> string \<Rightarrow> error + string" where
  "augment_path w p =
     (case expand_path w p of
        None \<Rightarrow> Inl invalid_path
      | Some (github owner nm tag) \<Rightarrow>
          (case repo_tags w (owner @ ''/'' @ nm) of
             Inl e \<Rightarrow> Inl e
           | Inr data \<Rightarrow>
               let vers = js_sort (newest_first w) (versions w data) in
               if (case tag of None \<Rightarrow> False | Some t \<Rightarrow> t \<in> set data) then Inr p
               else if tag = Some ''master'' then Inr (''github:'' @ owner @ ''/'' @ nm @ ''#master'')
               else if (case tag of None \<Rightarrow> False | Some t \<Rightarrow> t \<noteq> []) then Inl invalid_path
               else (case vers of
                       newest # older \<Rightarrow> Inr (''github:'' @ owner @ ''/'' @ nm @ ''#'' @ snd newest)
                     | [] \<Rightarrow> Inr (''github:'' @ owner @ ''/'' @ nm @ ''#master'')))
      | Some (local lp) \<Rightarrow>
          (case fs_stat w lp of
             Some e \<Rightarrow> Inl e
           | None \<Rightarrow> Inr (''local:'' @ lp)))"

section \<open>The registry\<close>

text \<open>
  What a call of \<^verbatim>\<open>add\<close> ends in: an exception nobody catches, the callback called with an
  error, or the callback called with the module.
\<close>

datatype 'a ending = Threw js_exception | Failed error | Succeeded 'a

text \<open>
  The first step of \<^verbatim>\<open>add\<close>: the loop over all documents of the store. \<open>Inr True\<close> is the
  \<^verbatim>\<open>module_conflict\<close> error; \<^verbatim>\<open>expand_path(...)\<close> of a path that does not parse is
  \<^verbatim>\<open>null\<close>, and reading its \<^verbatim>\<open>type\<close> throws.
\<close>

fun present :: "'k world \<Rightarrow> string \<Rightarrow> jsval list \<Rightarrow> js_exception + bool" where
  "present w p [] = Inr False"
| "present w p (m # modules) =
     (case expand_path w (to_string (get_prop m ''path'')) of
        None \<Rightarrow> Inl TypeError
      | Some em \<Rightarrow>
          (case expand_path w p of
             None \<Rightarrow> Inl TypeError
           | Some ep \<Rightarrow>
               (case (em, ep) of
                  (github mo mn mt, github po pn pt) \<Rightarrow>
                    if get_prop m ''path'' = JStr p \<or> (mo = po \<and> mn = pn) then Inr True
                    else present w p modules
                | (local ml, local pl) \<Rightarrow>
                    if get_prop m ''path'' = JStr p then Inr True else present w p modules
                | _ \<Rightarrow> present w p modules)))"

text \<open>\<^verbatim>\<open>my.db.update({ path: p }, doc, { upsert: true })\<close>.\<close>

fun upsert :: "jsval \<Rightarrow> jsval \<Rightarrow> jsval list \<Rightarrow> jsval list" where
  "upsert p doc [] = [doc]"
| "upsert p doc (d # ds) = (if get_prop d ''path'' = p then doc # ds else d # upsert p doc ds)"

text \<open>
  \<^verbatim>\<open>add(path, cb_)\<close>. For a \<^verbatim>\<open>github\<close> path the second step reads \<^verbatim>\<open>epxand_path\<close>, a name
  that is not defined: a \<^verbatim>\<open>ReferenceError\<close>. In the third step the error for a name in use
  reads \<^verbatim>\<open>m.name\<close>, and no \<^verbatim>\<open>m\<close> is in scope there: a \<^verbatim>\<open>ReferenceError\<close> again. The
  document stored is \<^verbatim>\<open>{ active, path, version, name }\<close>.
\<close>

definition add :: "('k::linorder) world \<Rightarrow> string \<Rightarrow> manager \<Rightarrow> jsval ending \<times> manager" where
  "add w p0 s =
     (case augment_path w p0 of
        Inl e \<Rightarrow> (Failed e, s)
      | Inr p \<Rightarrow>
          (case present w p (db s) of
             Inl x \<Rightarrow> (Threw x, s)
           | Inr True \<Rightarrow> (Failed module_conflict, s)
           | Inr False \<Rightarrow>
               (case expand_path w p of
                  None \<Rightarrow> (Threw TypeError, s)
                | Some (github owner nm tag) \<Rightarrow> (Threw ReferenceError, s)
                | Some (local lp) \<Rightarrow>
                    (case read_package w lp of
                       Inl e \<Rightarrow> (Failed e, s)
                     | Inr package_json \<Rightarrow>
                         if package_json = JNull \<or> package_json = JUndefined
                         then (Threw TypeError, s)
                         else
                           (case semver_clean w (get_prop package_json ''version'') of
                              None \<Rightarrow> (Failed invalid_version, s)
                            | Some v \<Rightarrow>
                                if v = [] then (Failed invalid_version, s)
                                else
                                  let nm = get_prop package_json ''name'' in
                                  if \<not> truthy nm then (Failed invalid_name, s)
                                  else if filter (\<lambda>d. get_prop d ''name'' = nm) (db s) \<noteq> []
                                  then (Threw ReferenceError, s)
                                  else
                                    let module = JObj [(''active'', JBool True),
                                                       (''path'', JStr p),
                                                       (''version'', JStr v),
                                                       (''name'', nm)]
                                    in (Succeeded module,
                                        s\<lparr>db := upsert (JStr p) module (db s)\<rparr>))))))"

text \<open>\<^verbatim>\<open>list(cb_)\<close>: every document, with \<^verbatim>\<open>running: true\<close> when its name is running.\<close>

fun set_prop :: "jsval \<Rightarrow> string \<Rightarrow> jsval \<Rightarrow> jsval" where
  "set_prop (JObj ps) k v = JObj (AList.update k v ps)"
| "set_prop x k v = x"

definition list_modules :: "manager \<Rightarrow> jsval list" where
  "list_modules s =
     map (\<lambda>m. if has (property_of (map_of (running_modules s) (to_string (get_prop m ''name'')))
                       (to_string (get_prop m ''name'')))
              then set_prop m ''running'' (JBool True) else m)
         (db s)"

section \<open>The events of a session\<close>

text \<open>
  Everything that happens to a module manager: a message is dispatched, the host calls the
  core endpoint or the module actions, a child sends a message or exits, a timer fires, a
  queued reply is dispatched on the next tick, the registry changes (by \<^verbatim>\<open>add\<close> or
  \<^verbatim>\<open>remove\<close>). An exception leaves the state as it is at the throw.
\<close>

datatype event =
    Dispatch "msg option"
  | CoreExpose string "jsval \<Rightarrow> completion"
  | CoreCall jsval jsval jsval nat
  | CoreEmit jsval jsval
  | RunModule string continuation
  | KillModule jsval continuation
  | Kill nat
  | ChildMessage nat "msg option"
  | ChildExit nat
  | TimerFire jsval
  | NextTick
  | Registry "jsval list"


definition init :: manager where
  "init = \<lparr> running_modules = [], shutdown_modules = [],
            core = \<lparr>procedures = Map.empty, message_id = 0, rpc_calls = Map.empty\<rparr>,
            db = [],
            children = (\<lambda>pid. \<lparr>exit_listeners = [], message_listener = None, killed = False\<rparr>),
            next_pid = 1, timers = [], eaches = Map.empty,
            next_each = 0, sent = [], next_tick = [], console = [], completed = [] \<rparr>"


section \<open>A sample session\<close>

text \<open>
  A regular expression engine on the three patterns the examples use: \<^verbatim>\<open>(\<close> does not
  compile, \<^verbatim>\<open>.*\<close> matches every string, \<^verbatim>\<open>state:.*\<close> the strings that contain
  \<^verbatim>\<open>state:\<close>.
\<close>

fun contains :: "string \<Rightarrow> string \<Rightarrow> bool" where
  "contains pat [] = (pat = [])"
| "contains pat (c # cs) = (take (length pat) (c # cs) = pat \<or> contains pat cs)"

definition sample_RegExp :: "string \<Rightarrow> (string \<Rightarrow> bool) option" where
  "sample_RegExp pat =
     (if pat = ''('' then None
      else if pat = ''.*'' then Some (\<lambda>x. True)
      else if pat = ''state:.*'' then Some (contains ''state:'')
      else Some (\<lambda>x. False))"

text \<open>
  The module \<^verbatim>\<open>alpha\<close> of scenario 1, added from \<^verbatim>\<open>local:/tmp/mod\<close>, and a second module
  \<^verbatim>\<open>beta\<close>; every install succeeds.
\<close>

definition alpha_doc :: jsval where
  "alpha_doc = JObj [(''active'', JBool True), (''path'', JStr ''local:/tmp/mod''),
                     (''version'', JStr ''1.2.3''), (''name'', JStr ''alpha'')]"

definition beta_doc :: jsval where
  "beta_doc = JObj [(''active'', JBool True), (''path'', JStr ''local:/tmp/beta''),
                    (''version'', JStr ''0.1.0''), (''name'', JStr ''beta'')]"

definition installed :: "string \<Rightarrow> error option" where
  "installed p = None"

definition alpha_running :: manager where
  "alpha_running = run_module installed ''local:/tmp/mod'' (Host 0) (init\<lparr>db := [alpha_doc]\<rparr>)"

definition both_running :: manager where
  "both_running =
     run_module installed ''local:/tmp/beta'' (Host 0)
       (run_module installed ''local:/tmp/mod'' (Host 0) (init\<lparr>db := [alpha_doc, beta_doc]\<rparr>))"

text \<open>
  A world with one repository, \<^verbatim>\<open>breach/mod_strip\<close>, tagged \<^verbatim>\<open>v0.1.0\<close>, \<^verbatim>\<open>v0.2.0\<close> and
  \<^verbatim>\<open>nightly\<close>, and two local directories whose manifests both give the name \<^verbatim>\<open>alpha\<close>.
  A version is ranked by the number its digits spell.
\<close>

definition sample_rank :: "string \<Rightarrow> nat" where
  "sample_rank v =
     foldl (\<lambda>n c. if c \<in> set ''0123456789'' then 10 * n + (of_char c - 48) else n) 0 v"

definition sample_clean :: "jsval \<Rightarrow> string option" where
  "sample_clean v =
     (case v of
        JStr s \<Rightarrow>
          (let d = (if take 1 s = ''v'' then drop 1 s else s) in
           if d \<noteq> [] \<and> list_all (\<lambda>c. c \<in> set ''0123456789.'') d then Some d else None)
      | _ \<Rightarrow> None)"

definition sample_world :: "nat world" where
  "sample_world =
     \<lparr> path_normalize = (\<lambda>p. p),
       home_join = (\<lambda>p. ''/home/user'' @ p),
       repo_tags = (\<lambda>r. if r = ''breach/mod_strip'' then Inr [''v0.1.0'', ''nightly'', ''v0.2.0'']
                         else Inl (external ''Not Found'')),
       fs_stat = (\<lambda>p. if p = ''/tmp/mod'' \<or> p = ''/tmp/other'' then None
                       else Some (external ''ENOENT'')),
       read_package = (\<lambda>p. if p = ''/tmp/mod'' \<or> p = ''/tmp/other''
                            then Inr (JObj [(''name'', JStr ''alpha''), (''version'', JStr ''1.2.3'')])
                            else Inl (external ''ENOENT'')),
       semver_clean = sample_clean,
       semver_rank = sample_rank \<rparr>"

text \<open>
  The call of scenario 4: the host exposes \<^verbatim>\<open>ping\<close>, and \<^verbatim>\<open>alpha\<close> calls it with
  \<^verbatim>\<open>{ n: 41 }\<close> under message id 7.
\<close>

definition ping :: "jsval \<Rightarrow> completion" where
  "ping a = CallsBack JNull
     (JObj [(''pong'', case get_prop a ''n'' of JNum n \<Rightarrow> JNum (n + 1) | _ \<Rightarrow> JUndefined)])"

definition ping_header :: header where
  "ping_header = \<lparr>hdr_typ = JStr ''rpc_call'', hdr_src = JStr ''alpha'', hdr_mid = JNum 7\<rparr>"

definition ping_call :: msg where
  "ping_call = empty_msg\<lparr>hdr := Some ping_header, dst := JStr ''core'', prc := JStr ''ping'',
                         arg := JObj [(''n'', JNum 41)]\<rparr>"

text \<open>
  The other direction: the core calls \<^verbatim>\<open>ping\<close> on \<^verbatim>\<open>alpha\<close> with continuation 7, and
  \<^verbatim>\<open>alpha\<close> replies to the call, whose message id is 1.
\<close>

definition after_core_call :: manager where
  "after_core_call =
     snd (core_call sample_RegExp (JStr ''alpha'') (JStr ''ping'') (JObj [(''n'', JNum 41)]) 7
            alpha_running)"

definition ping_reply :: msg where
  "ping_reply =
     empty_msg\<lparr>hdr := Some \<lparr>hdr_typ = JStr ''rpc_reply'', hdr_src = JStr ''alpha'',
                             hdr_mid = JNum 1\<rparr>,
               dst := JStr ''core'', prc := JStr ''ping'', oid := JNum 1,
               res := JObj [(''pong'', JNum 42)]\<rparr>"

text \<open>A registration whose source pattern does not compile.\<close>

definition bad_register :: msg where
  "bad_register =
     empty_msg\<lparr>hdr := Some \<lparr>hdr_typ = JStr ''register'', hdr_src = JStr ''alpha'',
                             hdr_mid = JNum 2\<rparr>,
               body_src := JStr ''('', body_typ := JStr ''.*''\<rparr>"

text \<open>
  The closed form of the \<^verbatim>\<open>event\<close> loop for one entry of \<^verbatim>\<open>my.running_modules\<close> whose
  process is there: one delivery per matching registration, none to the sender.
\<close>

definition deliveries :: "string \<Rightarrow> msg \<Rightarrow> string \<times> running_module \<Rightarrow> (string \<times> nat \<times> msg) list" where
  "deliveries sender m e =
     (if fst e = sender then []
      else map (\<lambda>r. (fst e, the (process (snd e)), m))
             (filter (\<lambda>r. source r sender \<and> type r (to_string (body_typ m)))
                (registrations (snd e))))"

text \<open>
  Scenario 3: \<^verbatim>\<open>alpha\<close> registers for \<^verbatim>\<open>state:.*\<close> from anyone, and \<^verbatim>\<open>beta\<close> emits
  \<^verbatim>\<open>state:change\<close>.
\<close>

definition register_state :: msg where
  "register_state =
     empty_msg\<lparr>hdr := Some \<lparr>hdr_typ = JStr ''register'', hdr_src = JStr ''alpha'',
                             hdr_mid = JNum 3\<rparr>,
               body_src := JStr ''.*'', body_typ := JStr ''state:.*''\<rparr>"

definition subscribed :: manager where
  "subscribed = snd (dispatch sample_RegExp (Some register_state) both_running)"

definition state_header :: header where
  "state_header = \<lparr>hdr_typ = JStr ''event'', hdr_src = JStr ''beta'', hdr_mid = JNum 4\<rparr>"

definition state_change :: msg where
  "state_change = empty_msg\<lparr>hdr := Some state_header, body_typ := JStr ''state:change'',
                            evt := JObj [(''x'', JNum 1)]\<rparr>"



text \<open>
  Calls of \<^verbatim>\<open>alpha\<close> to procedures of the core that nobody exposed: \<^verbatim>\<open>__proto__\<close> and
  \<^verbatim>\<open>toString\<close>, which every object inherits, and \<^verbatim>\<open>pong\<close>, which none does.
\<close>

definition unexposed_call :: "string \<Rightarrow> msg" where
  "unexposed_call proc =
     empty_msg\<lparr>hdr := Some \<lparr>hdr_typ = JStr ''rpc_call'', hdr_src = JStr ''alpha'',
                             hdr_mid = JNum 7\<rparr>,
               dst := JStr ''core'', prc := JStr proc\<rparr>"

text \<open>
  Both modules register for \<^verbatim>\<open>state:.*\<close>; then the child of \<^verbatim>\<open>alpha\<close> exits and the
  restart fails in \<^verbatim>\<open>install\<close>, which leaves the entry of \<^verbatim>\<open>alpha\<close> without its process
  handle.
\<close>

definition register_state_beta :: msg where
  "register_state_beta =
     empty_msg\<lparr>hdr := Some \<lparr>hdr_typ = JStr ''register'', hdr_src = JStr ''beta'',
                             hdr_mid = JNum 5\<rparr>,
               body_src := JStr ''.*'', body_typ := JStr ''state:.*''\<rparr>"

definition install_fails :: "string \<Rightarrow> error option" where
  "install_fails p = Some (external ''npm install failed'')"

definition alpha_down :: manager where
  "alpha_down =
     snd (child_exit install_fails 1
            (snd (dispatch sample_RegExp (Some register_state_beta) subscribed)))"


text \<open>
  The restart budget as a property of a state: no entry of \<^verbatim>\<open>my.running_modules\<close> has a
  \<^verbatim>\<open>restart\<close> counter above 3.
\<close>

definition restart_bounded :: "manager \<Rightarrow> bool" where
  "restart_bounded s = (\<forall>k rm. map_of (running_modules s) k = Some rm \<longrightarrow> restart rm \<le> 3)"


section \<open>Basic facts\<close>

lemma property_of_Some [simp]: "property_of (Some v) k = Own v"
  by (simp add: property_of_def)

lemma property_of_Own [simp]: "(property_of own k = Own v) = (own = Some v)"
  by (simp add: property_of_def split: option.splits)


lemma next_id_step: "n < 9007199254740992 \<Longrightarrow> next_id n = n + 1"
  by (simp add: next_id_def)

lemma invoke_frame [simp]:
  "running_modules (invoke cb e s) = running_modules s"
  "shutdown_modules (invoke cb e s) = shutdown_modules s"
  "children (invoke cb e s) = children s"
  "db (invoke cb e s) = db s"
  "core (invoke cb e s) = core s"
  "sent (invoke cb e s) = sent s"
  "timers (invoke cb e s) = timers s"
  "next_pid (invoke cb e s) = next_pid s"
  by (simp_all add: invoke_def Let_def split: continuation.splits option.splits)


lemma invoke_Ignore [simp]: "invoke Ignore e s = s"
  by (simp add: invoke_def)

lemma ignored_message_dropped:
  "accepted s mo = None \<Longrightarrow>
   dispatch RegExp mo s = (Returned, s\<lparr>console := console s @ [IGNORED mo]\<rparr>)"
  by (simp add: dispatch_def)

section \<open>The core endpoint and the dispatcher\<close>

text \<open>
  C1. \<^verbatim>\<open>core_call\<close> sends an \<^verbatim>\<open>rpc_call\<close> from \<^verbatim>\<open>core\<close> with a fresh id and records the
  continuation under that id, but the envelope carries the argument under the key
  \<^verbatim>\<open>args\<close>, not \<^verbatim>\<open>arg\<close>, and the continuation never fires: when the module's reply is
  dispatched, the read of \<^verbatim>\<open>my.core_moodule\<close> throws a \<^verbatim>\<open>TypeError\<close>, and the entry of
  \<^verbatim>\<open>rpc_calls\<close> stays.
\<close>

theorem core_call_continuation_never_fires:
  "fst (core_call sample_RegExp (JStr ''alpha'') (JStr ''ping'') (JObj [(''n'', JNum 41)]) 7
          alpha_running) = Returned
   \<and> map (\<lambda>(k, p, m). (k, p, hdr m, arg m, args m)) (sent after_core_call) =
       [(''alpha'', 1,
         Some \<lparr>hdr_typ = JStr ''rpc_call'', hdr_src = JStr ''core'', hdr_mid = JNum 1\<rparr>,
         JUndefined, JObj [(''n'', JNum 41)])]
   \<and> rpc_calls (core after_core_call) ''1'' = Some 7
   \<and> fst (dispatch sample_RegExp (Some ping_reply) after_core_call) = Thrown TypeError
   \<and> rpc_calls (core (snd (dispatch sample_RegExp (Some ping_reply) after_core_call))) ''1'' = Some 7"
  by code_simp

text \<open>
  What the dispatcher does with an accepted \<^verbatim>\<open>rpc_call\<close> to \<^verbatim>\<open>core\<close> when no running
  module is itself named \<^verbatim>\<open>core\<close> and the procedure name is not an inherited member:
  nothing is sent or called in that call, the next core message id is allocated, and the
  message, turned into the reply, is queued for the next tick when the handler calls back
  (at once, with \<^verbatim>\<open>procedure_not_found\<close>, when the procedure is not exposed).
\<close>

lemma rpc_call_to_core_reply_queued:
  assumes gate: "accepted s (Some m) = Some (m, h, sender)"
    and call: "hdr_typ h = JStr ''rpc_call''"
    and to_core: "dst m = JStr core_name"
    and reserved: "map_of (running_modules s) core_name = None"
    and plain: "\<not> prototype_member (to_string (prc m))"
  shows "\<exists>s'. dispatch RegExp (Some m) s = (Returned, s')
      \<and> sent s' = sent s \<and> completed s' = completed s
      \<and> running_modules s' = running_modules s
      \<and> message_id (core s') = next_id (message_id (core s))
      \<and> next_tick s' = next_tick s @
          (let reply = m\<lparr>oid := hdr_mid h,
                         hdr := Some \<lparr>hdr_typ = JStr ''rpc_reply'', hdr_src = JStr core_name,
                                     hdr_mid = JNum (next_id (message_id (core s)))\<rparr>,
                         dst := JStr sender\<rparr>
           in case procedures (core s) (to_string (prc m)) of
                None \<Rightarrow>
                  [reply\<lparr>err := JObj [(''msg'', JStr (''Procedure not found: `'' @
                                                       to_string (prc m) @ ''`'')),
                                      (''nme'', JStr ''procedure_not_found'')]\<rparr>]
              | Some handler \<Rightarrow>
                  (case handler (arg m) of
                     NoCallback \<Rightarrow> []
                   | CallsBack e r \<Rightarrow>
                       [if truthy e
                        then reply\<lparr>err := JObj [(''msg'', get_prop e ''message''),
                                                (''nme'', get_prop e ''name'')]\<rparr>
                        else reply\<lparr>res := r\<rparr>]))"
proof -
  have core: "property_of (map_of (running_modules s) ''core'') ''core'' = Missing"
    using reserved by (simp add: core_name_def property_of_def prototype_member_def)
  show ?thesis
    using gate call to_core plain core
    by (simp add: dispatch_def Let_def core_name_def property_of_def
        split: option.splits completion.splits)
qed

text \<open>
  C2. An \<^verbatim>\<open>rpc_call\<close> to \<^verbatim>\<open>core\<close> for a procedure that was never exposed must come back
  as a reply with \<^verbatim>\<open>err.nme = procedure_not_found\<close>, and nothing may be thrown in the
  dispatcher. The source tests \<^verbatim>\<open>procedures[msg.prc]\<close>, which also finds what every object
  inherits: with nothing exposed, the call of \<^verbatim>\<open>alpha\<close> to \<^verbatim>\<open>__proto__\<close> ends the dispatch
  in a \<^verbatim>\<open>TypeError\<close>, and its call to \<^verbatim>\<open>toString\<close> returns with no reply queued, now or
  later; only a name like \<^verbatim>\<open>pong\<close> gets the \<^verbatim>\<open>procedure_not_found\<close> reply (to \<^verbatim>\<open>alpha\<close>,
  with \<^verbatim>\<open>oid\<close> 7 and the fresh id 1).
\<close>

theorem rpc_call_to_inherited_procedure_gets_no_reply:
  "fst (dispatch sample_RegExp (Some (unexposed_call ''__proto__'')) alpha_running) =
     Thrown TypeError
   \<and> next_tick (snd (dispatch sample_RegExp (Some (unexposed_call ''__proto__'')) alpha_running)) = []
   \<and> fst (dispatch sample_RegExp (Some (unexposed_call ''toString'')) alpha_running) = Returned
   \<and> next_tick (snd (dispatch sample_RegExp (Some (unexposed_call ''toString'')) alpha_running)) = []
   \<and> sent (snd (dispatch sample_RegExp (Some (unexposed_call ''toString'')) alpha_running)) = []
   \<and> fst (dispatch sample_RegExp (Some (unexposed_call ''pong'')) alpha_running) = Returned
   \<and> map (\<lambda>m. (hdr m, dst m, oid m, get_prop (err m) ''nme''))
       (next_tick (snd (dispatch sample_RegExp (Some (unexposed_call ''pong'')) alpha_running))) =
       [(Some \<lparr>hdr_typ = JStr ''rpc_reply'', hdr_src = JStr ''core'', hdr_mid = JNum 1\<rparr>,
         JStr ''alpha'', JNum 7, JStr ''procedure_not_found'')]"
  by code_simp

lemma deliver_live:
  "deliver sender m nm (Some pid) rs out =
     (Returned,
      out @ (if nm = sender then []
             else map (\<lambda>r. (nm, pid, m))
                    (filter (\<lambda>r. source r sender \<and> type r (to_string (body_typ m))) rs)))"
  by (induction rs arbitrary: out) auto

lemma deliver_all_live:
  "\<forall>e \<in> set mods. process (snd e) \<noteq> None \<Longrightarrow>
   deliver_all sender m mods out = (Returned, out @ concat (map (deliveries sender m) mods))"
proof (induction mods arbitrary: out)
  case Nil
  then show ?case by simp
next
  case (Cons e mods)
  obtain nm rm where e: "e = (nm, rm)" by (cases e)
  from Cons.prems e obtain pid where pid: "process rm = Some pid" by auto
  from Cons.prems have rest: "\<forall>e \<in> set mods. process (snd e) \<noteq> None" by simp
  show ?case
    by (simp add: e pid deliver_live Cons.IH [OF rest] deliveries_def)
qed

lemma deliveries_key:
  "d \<in> set (deliveries sender m e) \<Longrightarrow> fst d = fst e \<and> fst d \<noteq> sender \<and> snd (snd d) = m"
  by (auto simp: deliveries_def split: if_splits)

lemma filter_deliveries_other:
  "fst e \<noteq> nm \<Longrightarrow> filter (\<lambda>d. fst d = nm) (deliveries sender m e) = []"
  by (auto simp: filter_empty_conv dest: deliveries_key)

lemma filter_deliveries_same:
  "fst e = nm \<Longrightarrow> filter (\<lambda>d. fst d = nm) (deliveries sender m e) = deliveries sender m e"
  by (auto simp: filter_id_conv dest: deliveries_key)

lemma filter_concat_deliveries:
  "distinct (map fst mods) \<Longrightarrow>
   filter (\<lambda>d. fst d = nm) (concat (map (deliveries sender m) mods)) =
     (case map_of mods nm of None \<Rightarrow> [] | Some rm \<Rightarrow> deliveries sender m (nm, rm))"
proof (induction mods)
  case Nil
  then show ?case by simp
next
  case (Cons e mods)
  obtain k rm where e: "e = (k, rm)" by (cases e)
  show ?case
  proof (cases "k = nm")
    case True
    with Cons.prems e have "map_of mods nm = None"
      by (simp add: map_of_eq_None_iff)
    with Cons True e show ?thesis
      by (simp add: filter_deliveries_same)
  next
    case False
    with Cons e show ?thesis
      by (simp add: filter_deliveries_other)
  qed
qed

lemma deliveries_replicate:
  "deliveries sender m (nm, rm) =
     (if nm = sender then []
      else replicate
             (length (filter (\<lambda>r. source r sender \<and> type r (to_string (body_typ m)))
                        (registrations rm)))
             (nm, the (process rm), m))"
  by (simp add: deliveries_def map_replicate_const)

text \<open>
  What the \<^verbatim>\<open>event\<close> loop does when every running module has its process handle (the keys
  of \<^verbatim>\<open>my.running_modules\<close> are distinct, as the properties of an object are): the
  dispatch returns, every message it sends is the event itself and goes to another module
  than the sender, and the module under key \<open>nm\<close> gets one delivery for each of its
  registrations whose patterns match the sender and \<^verbatim>\<open>msg.typ\<close>.
\<close>

lemma event_deliveries_with_handles:
  assumes gate: "accepted s (Some m) = Some (m, h, sender)"
    and ev: "hdr_typ h = JStr ''event''"
    and procs: "\<forall>e \<in> set (running_modules s). process (snd e) \<noteq> None"
    and keys: "distinct (map fst (running_modules s))"
  shows "\<exists>s' new. dispatch RegExp (Some m) s = (Returned, s') \<and> sent s' = sent s @ new
      \<and> (\<forall>d \<in> set new. fst d \<noteq> sender \<and> snd (snd d) = m)
      \<and> (\<forall>nm. filter (\<lambda>d. fst d = nm) new =
            (case map_of (running_modules s) nm of
               None \<Rightarrow> []
             | Some rm \<Rightarrow>
                 if nm = sender then []
                 else replicate
                        (length (filter (\<lambda>r. source r sender \<and> type r (to_string (body_typ m)))
                                   (registrations rm)))
                        (nm, the (process rm), m)))"
proof -
  let ?new = "concat (map (deliveries sender m) (running_modules s))"
  have run: "dispatch RegExp (Some m) s =
      (Returned, s\<lparr>console := console s @ [ROUTED m], sent := sent s @ ?new\<rparr>)"
    using gate ev procs by (simp add: dispatch_def Let_def deliver_all_live)
  have own: "\<forall>d \<in> set ?new. fst d \<noteq> sender \<and> snd (snd d) = m"
    by (auto dest: deliveries_key)
  have count: "\<forall>nm. filter (\<lambda>d. fst d = nm) ?new =
            (case map_of (running_modules s) nm of
               None \<Rightarrow> []
             | Some rm \<Rightarrow>
                 if nm = sender then []
                 else replicate
                        (length (filter (\<lambda>r. source r sender \<and> type r (to_string (body_typ m)))
                                   (registrations rm)))
                        (nm, the (process rm), m))"
    using keys by (simp add: filter_concat_deliveries deliveries_replicate split: option.splits)
  from run own count show ?thesis by simp
qed


text \<open>
  C3. An event must reach every running module, other than its sender, that has a matching
  registration. The \<^verbatim>\<open>event\<close> loop calls \<^verbatim>\<open>.process.send\<close> without the test for
  \<^verbatim>\<open>.process\<close> that the \<^verbatim>\<open>rpc_reply\<close> case makes: with \<^verbatim>\<open>alpha\<close> and \<^verbatim>\<open>beta\<close> both
  registered for \<^verbatim>\<open>state:.*\<close> and the process handle of \<^verbatim>\<open>alpha\<close> deleted by its exit
  listener, an event \<^verbatim>\<open>state:change\<close> from the core ends the dispatch in a \<^verbatim>\<open>TypeError\<close>
  at the entry of \<^verbatim>\<open>alpha\<close>, and \<^verbatim>\<open>beta\<close>, which runs and has a matching registration,
  receives nothing. Before the exit the same event reached both.
\<close>

theorem event_lost_behind_missing_process:
  "map (\<lambda>(k, rm). (k, process rm, length (registrations rm))) (running_modules alpha_down) =
     [(''alpha'', None, 1), (''beta'', Some 2, 1)]
   \<and> fst (core_emit sample_RegExp (JStr ''state:change'') (JObj [(''x'', JNum 1)]) alpha_down) =
       Thrown TypeError
   \<and> sent (snd (core_emit sample_RegExp (JStr ''state:change'') (JObj [(''x'', JNum 1)])
                  alpha_down)) = []
   \<and> map (\<lambda>(k, p, m). (k, p, body_typ m))
       (sent (snd (core_emit sample_RegExp (JStr ''state:change'') (JObj [(''x'', JNum 1)])
                     (snd (dispatch sample_RegExp (Some register_state_beta) subscribed))))) =
       [(''alpha'', 1, JStr ''state:change''), (''beta'', 2, JStr ''state:change'')]"
  by code_simp

text \<open>
  C4. \<^verbatim>\<open>dispatch\<close> throws: a \<^verbatim>\<open>register\<close> message whose pattern does not compile ends in
  the \<^verbatim>\<open>SyntaxError\<close> of \<^verbatim>\<open>new RegExp\<close> (no registration is added, but the message is not
  dropped silently), and a reply to a pending call of the core ends in a \<^verbatim>\<open>TypeError\<close>.
\<close>

theorem dispatch_throws:
  "fst (dispatch sample_RegExp (Some bad_register) alpha_running) = Thrown SyntaxError
   \<and> map (\<lambda>(k, rm). (k, length (registrations rm)))
       (running_modules (snd (dispatch sample_RegExp (Some bad_register) alpha_running))) =
       [(''alpha'', 0)]
   \<and> fst (dispatch sample_RegExp (Some ping_reply) after_core_call) = Thrown TypeError"
  by code_simp

section \<open>Running, restarting and killing modules\<close>

text \<open>
  C5. \<^verbatim>\<open>kill\<close> with \<^verbatim>\<open>alpha\<close> running: \<^verbatim>\<open>kill_module\<close> is called with the name \<^verbatim>\<open>alpha\<close>,
  finds no document with that path and fails with \<^verbatim>\<open>module_unknown\<close>; no \<^verbatim>\<open>kill\<close> call
  is sent and the module keeps running.
\<close>

theorem kill_fails_module_unknown:
  "fst (kill sample_RegExp 9 alpha_running) = Returned
   \<and> completed (snd (kill sample_RegExp 9 alpha_running)) =
       completed alpha_running @ [(9, Some module_unknown)]
   \<and> map fst (running_modules (snd (kill sample_RegExp 9 alpha_running))) = [''alpha'']
   \<and> shutdown_modules (snd (kill sample_RegExp 9 alpha_running)) = []
   \<and> sent (snd (kill sample_RegExp 9 alpha_running)) = []"
  by code_simp








lemma restart_boundedI:
  "(\<And>k rm. map_of (running_modules s) k = Some rm \<Longrightarrow> restart rm \<le> 3) \<Longrightarrow> restart_bounded s"
  by (simp add: restart_bounded_def)



lemma restart_bounded_delete:
  "restart_bounded s \<Longrightarrow>
   running_modules s' = AList.delete k (running_modules s) \<Longrightarrow> restart_bounded s'"
  by (simp add: restart_bounded_def AList.delete_conv')




lemma bounded_core [simp]: "restart_bounded (s\<lparr>core := c\<rparr>) = restart_bounded s"
  by (simp add: restart_bounded_def)

lemma bounded_invoke [simp]: "restart_bounded (invoke cb e s) = restart_bounded s"
  by (simp add: restart_bounded_def invoke_frame)















lemma run_module_Ignore_completed [simp]:
  "completed (run_module installs p Ignore s) = completed s"
  by (simp add: run_module_def Let_def split: list.splits option.splits)




section \<open>Adding modules and resolving tags\<close>

text \<open>
  C8. Adding \<^verbatim>\<open>local:/tmp/other\<close>, whose manifest names \<^verbatim>\<open>alpha\<close>, to a registry that has
  \<^verbatim>\<open>alpha\<close> at \<^verbatim>\<open>local:/tmp/mod\<close>: the registry is unchanged, but \<^verbatim>\<open>add\<close> ends in a
  \<^verbatim>\<open>ReferenceError\<close> and the callback is not called with \<^verbatim>\<open>module_conflict\<close>.
\<close>

theorem add_same_name_throws:
  "fst (add sample_world ''local:/tmp/other'' (init\<lparr>db := [alpha_doc]\<rparr>)) = Threw ReferenceError
   \<and> db (snd (add sample_world ''local:/tmp/other'' (init\<lparr>db := [alpha_doc]\<rparr>))) = [alpha_doc]
   \<and> fst (add sample_world ''local:/tmp/mod'' (init\<lparr>db := [alpha_doc]\<rparr>)) = Failed module_conflict"
  by code_simp

text \<open>
  C9. Adding a \<^verbatim>\<open>github\<close> path that resolves: \<^verbatim>\<open>add\<close> ends in a \<^verbatim>\<open>ReferenceError\<close> and
  stores nothing. A local path is stored with \<^verbatim>\<open>path\<close>, \<^verbatim>\<open>name\<close> and \<^verbatim>\<open>version\<close>, and
  \<^verbatim>\<open>list\<close> returns the document.
\<close>

theorem add_github_throws:
  "augment_path sample_world ''github:breach/mod_strip#v0.2.0'' =
     Inr ''github:breach/mod_strip#v0.2.0''
   \<and> fst (add sample_world ''github:breach/mod_strip#v0.2.0'' init) = Threw ReferenceError
   \<and> db (snd (add sample_world ''github:breach/mod_strip#v0.2.0'' init)) = []
   \<and> fst (add sample_world ''local:/tmp/mod'' init) = Succeeded alpha_doc
   \<and> list_modules (snd (add sample_world ''local:/tmp/mod'' init)) = [alpha_doc]"
  by code_simp

lemma github_m_tag:
  "github_m p = Some (owner, nm, Some t) \<Longrightarrow> t \<noteq> []"
  by (auto simp add: github_m_def Let_def split: option.splits list.splits if_splits)

lemma expand_path_tag:
  "expand_path w p = Some (github owner nm (Some t)) \<Longrightarrow> t \<noteq> []"
  by (auto simp add: expand_path_def dest: github_m_tag split: option.splits if_splits)

lemma set_insert_by: "set (insert_by cmp x ys) = insert x (set ys)"
  by (induction ys) auto

lemma insert_by_nonempty: "insert_by cmp x ys \<noteq> []"
  by (cases ys) auto

lemma insert_by_newest:
  assumes "\<forall>z \<in> set ys. semver_rank w (fst z) \<le> semver_rank w (fst (hd ys))"
  shows "\<forall>z \<in> set (insert_by (newest_first w) x ys).
           semver_rank w (fst z) \<le> semver_rank w (fst (hd (insert_by (newest_first w) x ys)))"
proof (cases ys)
  case Nil
  then show ?thesis by simp
next
  case (Cons y rest)
  with assms show ?thesis
    by (auto simp add: newest_first_def set_insert_by)
qed

lemma js_sort_newest:
  "\<forall>z \<in> set (js_sort (newest_first w) xs).
     semver_rank w (fst z) \<le> semver_rank w (fst (hd (js_sort (newest_first w) xs)))"
proof (induction xs)
  case Nil
  show ?case by (simp add: js_sort_def)
next
  case (Cons x xs)
  from insert_by_newest [OF Cons.IH, of x] show ?case
    by (simp add: js_sort_def)
qed

lemma set_js_sort: "set (js_sort cmp xs) = set xs"
  by (induction xs) (simp_all add: js_sort_def set_insert_by)

lemma set_versions:
  "set (versions w data) =
     {(v, t). t \<in> set data \<and> semver_clean w (JStr t) = Some v \<and> v \<noteq> []}"
proof (induction data)
  case Nil
  show ?case by (simp add: versions_def)
next
  case (Cons t data)
  then show ?case
    by (auto simp add: versions_def split: option.splits if_splits)
qed

lemma versions_empty:
  "versions w data = [] \<longleftrightarrow>
     (\<forall>t v. t \<in> set data \<and> semver_clean w (JStr t) = Some v \<longrightarrow> v = [])"
proof -
  have "versions w data = [] \<longleftrightarrow> set (versions w data) = {}" by simp
  also have "\<dots> \<longleftrightarrow> (\<forall>t v. t \<in> set data \<and> semver_clean w (JStr t) = Some v \<longrightarrow> v = [])"
    unfolding set_versions by auto
  finally show ?thesis .
qed

lemma newest_head:
  assumes "js_sort (newest_first w) (versions w data) = newest # older"
  shows "snd newest \<in> set data \<and> semver_clean w (JStr (snd newest)) = Some (fst newest)
     \<and> (\<forall>t' v'. t' \<in> set data \<and> semver_clean w (JStr t') = Some v' \<and> v' \<noteq> [] \<longrightarrow>
           semver_rank w v' \<le> semver_rank w (fst newest))"
proof -
  from assms have "newest \<in> set (js_sort (newest_first w) (versions w data))" by simp
  then have mem: "newest \<in> set (versions w data)" by (simp add: set_js_sort)
  have top: "\<forall>z \<in> set (versions w data). semver_rank w (fst z) \<le> semver_rank w (fst newest)"
    using js_sort_newest [of w "versions w data", unfolded set_js_sort] assms by simp
  from mem have "snd newest \<in> set data \<and> semver_clean w (JStr (snd newest)) = Some (fst newest)"
    by (auto simp add: set_versions)
  moreover have "\<forall>t' v'. t' \<in> set data \<and> semver_clean w (JStr t') = Some v' \<and> v' \<noteq> [] \<longrightarrow>
           semver_rank w v' \<le> semver_rank w (fst newest)"
  proof (intro allI impI)
    fix t' v'
    assume "t' \<in> set data \<and> semver_clean w (JStr t') = Some v' \<and> v' \<noteq> []"
    then have "(v', t') \<in> set (versions w data)" by (simp add: set_versions)
    with top show "semver_rank w v' \<le> semver_rank w (fst newest)" by fastforce
  qed
  ultimately show ?thesis by simp
qed

text \<open>
  C10. For a path that parses as \<^verbatim>\<open>github:owner/name[#tag]\<close>: when the tag listing fails,
  \<^verbatim>\<open>augment_path\<close> returns that error. Otherwise, in this order: a supplied tag that is
  among the listed tags keeps the path as it was given; a supplied \<^verbatim>\<open>master\<close> gives
  \<^verbatim>\<open>#master\<close>; any other supplied tag is \<^verbatim>\<open>invalid_path\<close>; with no tag supplied, the
  result carries a listed tag that \<^verbatim>\<open>semver.clean\<close> accepts and whose version no other
  accepted tag's version exceeds; and when no listed tag is accepted (the list may be
  empty) the result is \<^verbatim>\<open>#master\<close>.
\<close>

theorem tag_resolution:
  assumes parsed: "expand_path w p = Some (github owner nm tag)"
  shows "(\<forall>e. repo_tags w (owner @ ''/'' @ nm) = Inl e \<longrightarrow> augment_path w p = Inl e)
     \<and> (\<forall>data. repo_tags w (owner @ ''/'' @ nm) = Inr data \<longrightarrow>
          (\<forall>t. tag = Some t \<and> t \<in> set data \<longrightarrow> augment_path w p = Inr p)
        \<and> (tag = Some ''master'' \<and> ''master'' \<notin> set data \<longrightarrow>
             augment_path w p = Inr (''github:'' @ owner @ ''/'' @ nm @ ''#master''))
        \<and> (\<forall>t. tag = Some t \<and> t \<notin> set data \<and> t \<noteq> ''master'' \<longrightarrow>
             augment_path w p = Inl invalid_path)
        \<and> (tag = None \<and> (\<exists>t v. t \<in> set data \<and> semver_clean w (JStr t) = Some v \<and> v \<noteq> []) \<longrightarrow>
             (\<exists>t v. augment_path w p = Inr (''github:'' @ owner @ ''/'' @ nm @ ''#'' @ t)
                \<and> t \<in> set data \<and> semver_clean w (JStr t) = Some v
                \<and> (\<forall>t' v'. t' \<in> set data \<and> semver_clean w (JStr t') = Some v' \<and> v' \<noteq> [] \<longrightarrow>
                      semver_rank w v' \<le> semver_rank w v)))
        \<and> (tag = None \<and> (\<forall>t v. t \<in> set data \<and> semver_clean w (JStr t) = Some v \<longrightarrow> v = []) \<longrightarrow>
             augment_path w p = Inr (''github:'' @ owner @ ''/'' @ nm @ ''#master'')))"
proof (intro conjI allI impI)
  fix e
  assume "repo_tags w (owner @ ''/'' @ nm) = Inl e"
  with parsed show "augment_path w p = Inl e"
    by (simp add: augment_path_def)
next
  fix data t
  assume "repo_tags w (owner @ ''/'' @ nm) = Inr data" and "tag = Some t \<and> t \<in> set data"
  with parsed show "augment_path w p = Inr p"
    by (simp add: augment_path_def Let_def)
next
  fix data
  assume "repo_tags w (owner @ ''/'' @ nm) = Inr data"
    and "tag = Some ''master'' \<and> ''master'' \<notin> set data"
  with parsed show "augment_path w p = Inr (''github:'' @ owner @ ''/'' @ nm @ ''#master'')"
    by (simp add: augment_path_def Let_def)
next
  fix data t
  assume listing: "repo_tags w (owner @ ''/'' @ nm) = Inr data"
    and unknown: "tag = Some t \<and> t \<notin> set data \<and> t \<noteq> ''master''"
  from parsed unknown have "t \<noteq> []" by (auto dest: expand_path_tag)
  with parsed listing unknown show "augment_path w p = Inl invalid_path"
    by (simp add: augment_path_def Let_def)
next
  fix data
  assume listing: "repo_tags w (owner @ ''/'' @ nm) = Inr data"
    and some: "tag = None \<and> (\<exists>t v. t \<in> set data \<and> semver_clean w (JStr t) = Some v \<and> v \<noteq> [])"
  from some have "versions w data \<noteq> []"
    by (auto simp add: versions_empty)
  then have "set (js_sort (newest_first w) (versions w data)) \<noteq> {}"
    by (simp add: set_js_sort)
  then obtain newest older where sorted: "js_sort (newest_first w) (versions w data) = newest # older"
    by (cases "js_sort (newest_first w) (versions w data)") auto
  from parsed listing some sorted
  have "augment_path w p = Inr (''github:'' @ owner @ ''/'' @ nm @ ''#'' @ snd newest)"
    by (simp add: augment_path_def Let_def)
  with newest_head [OF sorted]
  show "\<exists>t v. augment_path w p = Inr (''github:'' @ owner @ ''/'' @ nm @ ''#'' @ t)
                \<and> t \<in> set data \<and> semver_clean w (JStr t) = Some v
                \<and> (\<forall>t' v'. t' \<in> set data \<and> semver_clean w (JStr t') = Some v' \<and> v' \<noteq> [] \<longrightarrow>
                      semver_rank w v' \<le> semver_rank w v)"
    by blast
next
  fix data
  assume listing: "repo_tags w (owner @ ''/'' @ nm) = Inr data"
    and none: "tag = None \<and> (\<forall>t v. t \<in> set data \<and> semver_clean w (JStr t) = Some v \<longrightarrow> v = [])"
  from none have "versions w data = []"
    by (simp add: versions_empty)
  with parsed listing none show "augment_path w p = Inr (''github:'' @ owner @ ''/'' @ nm @ ''#master'')"
    by (simp add: augment_path_def Let_def js_sort_def)
qed

theorem tag_resolution_witness:
  "(\<exists>t v. augment_path sample_world ''github:breach/mod_strip'' = Inr (''github:breach/mod_strip#'' @ t)
       \<and> sample_clean (JStr t) = Some v \<and> sample_rank ''0.2.0'' \<le> sample_rank v)
   \<and> augment_path sample_world ''github:breach/mod_strip#nightly'' = Inr ''github:breach/mod_strip#nightly''
   \<and> augment_path sample_world ''github:breach/mod_strip#master'' = Inr ''github:breach/mod_strip#master''
   \<and> augment_path sample_world ''github:breach/mod_strip#v9'' = Inl invalid_path
   \<and> augment_path sample_world ''github:breach/gone'' = Inl (external ''Not Found'')"
proof -
  let ?data = "[''v0.1.0'', ''nightly'', ''v0.2.0'']"
  have listing: "repo_tags sample_world (''breach'' @ ''/'' @ ''mod_strip'') = Inr ?data"
    by (simp add: sample_world_def)
  have missing: "repo_tags sample_world (''breach'' @ ''/'' @ ''gone'') = Inl (external ''Not Found'')"
    by (simp add: sample_world_def)
  have clean: "semver_clean sample_world = sample_clean"
    and rank: "semver_rank sample_world = sample_rank"
    by (simp_all add: sample_world_def)
  have p0: "expand_path sample_world ''github:breach/mod_strip'' = Some (github ''breach'' ''mod_strip'' None)"
    by code_simp
  have p1: "expand_path sample_world ''github:breach/mod_strip#nightly'' =
      Some (github ''breach'' ''mod_strip'' (Some ''nightly''))"
    by code_simp
  have p2: "expand_path sample_world ''github:breach/mod_strip#master'' =
      Some (github ''breach'' ''mod_strip'' (Some ''master''))"
    by code_simp
  have p3: "expand_path sample_world ''github:breach/mod_strip#v9'' =
      Some (github ''breach'' ''mod_strip'' (Some ''v9''))"
    by code_simp
  have p4: "expand_path sample_world ''github:breach/gone'' = Some (github ''breach'' ''gone'' None)"
    by code_simp
  have valid: "sample_clean (JStr ''v0.2.0'') = Some ''0.2.0''"
    by code_simp
  have some: "\<exists>t v. t \<in> set ?data \<and> semver_clean sample_world (JStr t) = Some v \<and> v \<noteq> []"
  proof (intro exI conjI)
    show "''v0.2.0'' \<in> set ?data" by simp
    show "semver_clean sample_world (JStr ''v0.2.0'') = Some ''0.2.0''" by (simp add: clean valid)
    show "''0.2.0'' \<noteq> []" by simp
  qed
  note newest_rule =
    tag_resolution [OF p0, THEN conjunct2, rule_format, OF listing,
      THEN conjunct2, THEN conjunct2, THEN conjunct2, THEN conjunct1, rule_format]
  from some have "None = (None :: string option)
      \<and> (\<exists>t v. t \<in> set ?data \<and> semver_clean sample_world (JStr t) = Some v \<and> v \<noteq> [])"
    by simp
  from newest_rule [OF this]
  obtain t v where chosen: "augment_path sample_world ''github:breach/mod_strip'' =
        Inr (''github:'' @ ''breach'' @ ''/'' @ ''mod_strip'' @ ''#'' @ t)"
    and cleaned: "semver_clean sample_world (JStr t) = Some v"
    and top: "\<forall>t' v'. t' \<in> set ?data \<and> semver_clean sample_world (JStr t') = Some v' \<and> v' \<noteq> [] \<longrightarrow>
        semver_rank sample_world v' \<le> semver_rank sample_world v"
    by (elim exE conjE)
  have "''v0.2.0'' \<in> set ?data \<and> semver_clean sample_world (JStr ''v0.2.0'') = Some ''0.2.0''
      \<and> ''0.2.0'' \<noteq> []"
    by (simp add: clean valid)
  from top [rule_format, OF this]
  have "semver_rank sample_world ''0.2.0'' \<le> semver_rank sample_world v" .
  then have ranked: "sample_rank ''0.2.0'' \<le> sample_rank v"
    by (simp only: rank)
  from cleaned have cleaned': "sample_clean (JStr t) = Some v"
    by (simp only: clean)
  from chosen have chosen': "augment_path sample_world ''github:breach/mod_strip'' =
        Inr (''github:breach/mod_strip#'' @ t)"
    by simp
  from chosen' cleaned' ranked
  have newest: "\<exists>t v. augment_path sample_world ''github:breach/mod_strip'' =
        Inr (''github:breach/mod_strip#'' @ t)
       \<and> sample_clean (JStr t) = Some v \<and> sample_rank ''0.2.0'' \<le> sample_rank v"
    by (intro exI conjI)
  have listed: "Some ''nightly'' = Some ''nightly'' \<and> ''nightly'' \<in> set ?data"
    by simp
  from tag_resolution [OF p1, THEN conjunct2, rule_format, OF listing,
      THEN conjunct1, rule_format, OF listed]
  have kept: "augment_path sample_world ''github:breach/mod_strip#nightly'' =
      Inr ''github:breach/mod_strip#nightly''" .
  have unlisted: "Some ''master'' = Some ''master'' \<and> ''master'' \<notin> set ?data"
    by simp
  from tag_resolution [OF p2, THEN conjunct2, rule_format, OF listing,
      THEN conjunct2, THEN conjunct1, rule_format, OF unlisted]
  have master: "augment_path sample_world ''github:breach/mod_strip#master'' =
      Inr ''github:breach/mod_strip#master''"
    by simp
  have unknown: "Some ''v9'' = Some ''v9'' \<and> ''v9'' \<notin> set ?data \<and> ''v9'' \<noteq> ''master''"
    by simp
  from tag_resolution [OF p3, THEN conjunct2, rule_format, OF listing,
      THEN conjunct2, THEN conjunct2, THEN conjunct1, rule_format, OF unknown]
  have invalid: "augment_path sample_world ''github:breach/mod_strip#v9'' = Inl invalid_path" .
  from tag_resolution [OF p4, THEN conjunct1, rule_format, OF missing]
  have failed: "augment_path sample_world ''github:breach/gone'' = Inl (external ''Not Found'')" .
  from newest kept master invalid failed show ?thesis
    by (intro conjI)
qed

end
